theory Spec2Isabelle
  imports Main
begin

section \<open>Values, messages and the surface of the pipeline\<close>

text \<open>
  Embedding of \<^verbatim>\<open>azure/iot/device/iothub/aio/async_clients.py\<close>: the asynchronous
  clients \<^verbatim>\<open>GenericIoTHubClient\<close>, \<^verbatim>\<open>IoTHubDeviceClient\<close> and \<^verbatim>\<open>IoTHubModuleClient\<close>.
  A coroutine is a function from the world to a result and the world it leaves; the order
  in which it reaches the pipeline, its callbacks and its inboxes is kept in a trace.
\<close>

text \<open>
  Python values a caller can pass as a message. A \<^verbatim>\<open>Message\<close> object lives in the store
  and is referred to by its address, so that two references to one object alias.
\<close>

datatype pyval = PyNone | PyStr string | PyInt int | MessageRef nat

text \<open>
  Modelled from the spec: the canonical message envelope \<^verbatim>\<open>Message\<close> of
  \<^verbatim>\<open>azure.iot.device.iothub.models\<close>, which is not part of the source file. Only the payload
  it is built from and the \<^verbatim>\<open>output_name\<close> attribute the client assigns are kept.
\<close>

record message =
  data :: pyval
  output_name :: "string option"

text \<open>\<^verbatim>\<open>isinstance(message, Message)\<close>\<close>

fun isinstance_Message :: "pyval \<Rightarrow> bool" where
  "isinstance_Message (MessageRef a) = True"
| "isinstance_Message v = False"

text \<open>The features named by \<^verbatim>\<open>constant.METHODS\<close>, \<^verbatim>\<open>constant.C2D_MSG\<close>, \<^verbatim>\<open>constant.INPUT_MSG\<close>.\<close>

datatype feature = METHODS | C2D_MSG | INPUT_MSG

text \<open>The callback-taking entry points of the pipeline that the clients call, with their argument.\<close>

datatype pipeline_op =
    Connect
  | Disconnect
  | Send_d2c_message pyval
  | Send_method_response pyval
  | Enable_feature feature
  | Send_output_event pyval

type_synonym error = string

datatype outcome = Success | Failure error

text \<open>
  Modelled from the spec: what an entry point of the transport does with one call
  (sections 4.2 and 6). It raises before invoking the callback, or it invokes the callback
  with an outcome before it returns, or it returns and the callback is invoked later, or
  the callback is never invoked (an orphaned suspension, section 7).
\<close>

datatype response =
    Raises error
  | Fires_before_return outcome
  | Fires_after_return outcome
  | Never_fires

text \<open>The handlers the clients install: bound methods of the client and of its inbox manager.\<close>

datatype state_handler = On_state_change

datatype inbound_handler = Route_method_request | Route_c2d_message | Route_input_message

text \<open>
  The pipeline object handed to the constructor: the feature flags it owns, its assignable
  handler slots, and how its entry points respond.
\<close>

record pipeline =
  feature_enabled :: "feature \<Rightarrow> bool"
  on_connected :: "state_handler option"
  on_disconnected :: "state_handler option"
  on_method_request_received :: "inbound_handler option"
  on_c2d_message_received :: "inbound_handler option"
  on_input_message_received :: "inbound_handler option"
  response :: "pipeline_op \<Rightarrow> response"

section \<open>Inboxes and the inbox manager\<close>

datatype category = Method_requests | C2d_messages | Input_messages

text \<open>An inbox is named by its category and its key; the key \<open>None\<close> is the generic inbox.\<close>

type_synonym inbox_ref = "category \<times> string option"

text \<open>An inbound event: the routing name it carries, if any, and its payload.\<close>

datatype item = Item (item_name: "string option") (payload: pyval)

type_synonym inbox_manager = "inbox_ref \<rightharpoonup> item list"

text \<open>
  Modelled from the spec: \<^verbatim>\<open>InboxManager\<close> (\<^verbatim>\<open>azure.iot.device.iothub.inbox_manager\<close>) and
  \<^verbatim>\<open>AsyncClientInbox\<close> are not part of the source file. Section 4.4: inboxes are created
  lazily on first access, an un-keyed category has one shared inbox, an event is put on the
  inbox of its routing key, a method request whose name has no inbox goes to the generic
  inbox, and clearing a category clears every inbox under it. Section 4.3: \<^verbatim>\<open>put\<close> appends,
  \<^verbatim>\<open>get\<close> removes the oldest item and suspends on an empty inbox, \<^verbatim>\<open>clear\<close> drops the
  queued items.
\<close>

text \<open>
  Modelled from the spec: \<^verbatim>\<open>InboxManager(inbox_type=AsyncClientInbox)\<close>, a manager that has
  created no inbox yet.
\<close>

definition InboxManager_init :: inbox_manager where
  "InboxManager_init = Map.empty"

text \<open>
  Modelled from the spec: \<^verbatim>\<open>inbox_for(category, key)\<close> of the absent inbox manager, which
  returns the inbox of a key, creating it empty when absent (section 4.4).
\<close>

definition inbox_for :: "inbox_ref \<Rightarrow> inbox_manager \<Rightarrow> inbox_manager" where
  "inbox_for r im = (case im r of None \<Rightarrow> im(r \<mapsto> []) | Some q \<Rightarrow> im)"

text \<open>
  Modelled from the spec: \<^verbatim>\<open>put\<close>, \<^verbatim>\<open>get\<close> and \<^verbatim>\<open>clear\<close> of the absent
  \<^verbatim>\<open>AsyncClientInbox\<close> (section 4.3); \<^verbatim>\<open>get\<close> on an empty inbox has nothing to return.
\<close>

definition AsyncClientInbox_put :: "item \<Rightarrow> item list \<Rightarrow> item list" where
  "AsyncClientInbox_put x q = q @ [x]"

definition AsyncClientInbox_get :: "item list \<Rightarrow> (item \<times> item list) option" where
  "AsyncClientInbox_get q = (case q of [] \<Rightarrow> None | x # xs \<Rightarrow> Some (x, xs))"

definition AsyncClientInbox_clear :: "item list \<Rightarrow> item list" where
  "AsyncClientInbox_clear q = []"

text \<open>
  Modelled from the spec: routing of an inbound event by the absent inbox manager
  (\<^verbatim>\<open>route_method_request\<close>, \<^verbatim>\<open>route_c2d_message\<close>, \<^verbatim>\<open>route_input_message\<close>), section 4.4.
\<close>

definition put_in :: "inbox_ref \<Rightarrow> item \<Rightarrow> inbox_manager \<Rightarrow> inbox_manager" where
  "put_in r x im =
     (case inbox_for r im r of
        None \<Rightarrow> inbox_for r im
      | Some q \<Rightarrow> (inbox_for r im)(r \<mapsto> AsyncClientInbox_put x q))"

definition route_method_request :: "item \<Rightarrow> inbox_manager \<Rightarrow> inbox_manager" where
  "route_method_request x im =
     (case item_name x of
        None \<Rightarrow> put_in (Method_requests, None) x im
      | Some n \<Rightarrow>
          (case im (Method_requests, Some n) of
             None \<Rightarrow> put_in (Method_requests, None) x im
           | Some q \<Rightarrow> put_in (Method_requests, Some n) x im))"

definition route_c2d_message :: "item \<Rightarrow> inbox_manager \<Rightarrow> inbox_manager" where
  "route_c2d_message x im = put_in (C2d_messages, None) x im"

definition route_input_message :: "item \<Rightarrow> inbox_manager \<Rightarrow> inbox_manager" where
  "route_input_message x im = put_in (Input_messages, item_name x) x im"

text \<open>
  Modelled from the spec: \<^verbatim>\<open>clear_all_method_requests\<close> of the absent inbox manager,
  \<^verbatim>\<open>clear_category(method_requests)\<close> of section 4.4: \<^verbatim>\<open>clear()\<close> on every inbox under
  that category.
\<close>

definition clear_all_method_requests :: "inbox_manager \<Rightarrow> inbox_manager" where
  "clear_all_method_requests im =
     (\<lambda>r. if fst r = Method_requests then map_option AsyncClientInbox_clear (im r) else im r)"

section \<open>The world of a client, results and coroutines\<close>

text \<open>What a coroutine does that can be seen from outside, in program order.\<close>

datatype event =
    Log string
  | Invoke pipeline_op "message list"
  | Fire pipeline_op outcome
  | Wait_completion pipeline_op
  | Wait_inbox inbox_ref

text \<open>
  The world: the client's two attributes \<^verbatim>\<open>_pipeline\<close> and \<^verbatim>\<open>_inbox_manager\<close>, the store
  of \<^verbatim>\<open>Message\<close> objects (an address is an index), the string values of the feature constants
  (module \<^verbatim>\<open>pipeline.constant\<close>, outside the source file), the trace, and the callbacks
  that were handed to the transport and have not fired yet.
\<close>

record world =
  pipeline :: pipeline
  inbox_manager :: inbox_manager
  messages :: "message list"
  constant_str :: "feature \<Rightarrow> string"
  trace :: "event list"
  pending :: "(pipeline_op \<times> string \<times> outcome) list"

text \<open>Where a coroutine is parked when nothing in the world resumes it.\<close>

datatype wait = On_completion pipeline_op | On_inbox inbox_ref

datatype 'a result = Returned 'a | Raised error | Suspended wait

type_synonym 'a coroutine = "world \<Rightarrow> 'a result \<times> world"

text \<open>Sequencing of statements: an exception or a suspension ends the coroutine there.\<close>

definition and_then :: "'a coroutine \<Rightarrow> ('a \<Rightarrow> 'b coroutine) \<Rightarrow> 'b coroutine" where
  "and_then m k w =
     (case m w of
        (Returned x, w1) \<Rightarrow> k x w1
      | (Raised e, w1) \<Rightarrow> (Raised e, w1)
      | (Suspended p, w1) \<Rightarrow> (Suspended p, w1))"

definition return :: "'a \<Rightarrow> 'a coroutine" where
  "return x w = (Returned x, w)"

definition emit :: "event \<Rightarrow> world \<Rightarrow> world" where
  "emit ev w = w\<lparr>trace := trace w @ [ev]\<rparr>"

text \<open>\<^verbatim>\<open>logger.info(s)\<close>\<close>

definition logger_info :: "string \<Rightarrow> unit coroutine" where
  "logger_info s w = (Returned (), emit (Log s) w)"

text \<open>The events a coroutine added to the trace.\<close>

definition new_events :: "world \<Rightarrow> world \<Rightarrow> event list" where
  "new_events w w' = drop (length (trace w)) (trace w')"

section \<open>The callback bridge\<close>

text \<open>
  Modelled from the spec: module \<^verbatim>\<open>azure.iot.device.common.async_adapter\<close> is not part of
  the source file. Sections 4.1 and 4.2: \<^verbatim>\<open>AwaitableCallback(sync_callback)\<close> is a callback
  with a completion signal; when the transport fires it with success, \<^verbatim>\<open>sync_callback\<close>
  runs and the signal is fulfilled; fired with a failure, the signal is fulfilled with that
  failure. \<^verbatim>\<open>emulate_async(entry)\<close> gives a coroutine that runs the entry point off the
  scheduler and resumes its caller when the entry point has returned; an exception raised by
  the entry point itself surfaces at that \<^verbatim>\<open>await\<close>. \<^verbatim>\<open>callback.completion()\<close> resumes its
  caller strictly after the callback has fired, and raises the failure the signal carries.
\<close>

datatype signal = Fulfilled outcome | Unfulfilled "outcome option"

datatype callback = AwaitableCallback (cb_op: pipeline_op) (cb_log: string) (cb_signal: signal)

text \<open>
  Modelled from the spec: the transport invokes the callback made for \<open>op\<close>; with success
  the wrapped \<^verbatim>\<open>sync_callback\<close> runs and logs \<open>msg\<close>.
\<close>

definition fire :: "pipeline_op \<Rightarrow> string \<Rightarrow> outcome \<Rightarrow> world \<Rightarrow> world" where
  "fire op msg oc w =
     (case oc of
        Success \<Rightarrow> emit (Log msg) (emit (Fire op oc) w)
      | Failure e \<Rightarrow> emit (Fire op oc) w)"

text \<open>
  Modelled from the spec: the two source lines
  \<^verbatim>\<open>callback = async_adapter.AwaitableCallback(sync_callback)\<close> and
  \<^verbatim>\<open>await entry_async(args, callback=callback)\<close>, where \<^verbatim>\<open>entry_async\<close> is
  \<^verbatim>\<open>async_adapter.emulate_async\<close> of the pipeline's entry point. The result is the callback
  as it stands when the entry point has returned.
\<close>

definition call_async :: "pipeline_op \<Rightarrow> string \<Rightarrow> callback coroutine" where
  "call_async op msg w =
     (let w1 = emit (Invoke op (messages w)) w in
      case response (pipeline w) op of
        Raises e \<Rightarrow> (Raised e, w1)
      | Fires_before_return oc \<Rightarrow>
          (Returned (AwaitableCallback op msg (Fulfilled oc)), fire op msg oc w1)
      | Fires_after_return oc \<Rightarrow>
          (Returned (AwaitableCallback op msg (Unfulfilled (Some oc))),
           w1\<lparr>pending := pending w1 @ [(op, msg, oc)]\<rparr>)
      | Never_fires \<Rightarrow> (Returned (AwaitableCallback op msg (Unfulfilled None)), w1))"

text \<open>
  Modelled from the spec: what the awaiting caller gets from a fulfilled signal, nothing on
  success and the failure raised otherwise (section 4.1).
\<close>

definition settle :: "outcome \<Rightarrow> unit coroutine" where
  "settle oc w = (case oc of Success \<Rightarrow> (Returned (), w) | Failure e \<Rightarrow> (Raised e, w))"

text \<open>
  Modelled from the spec: \<^verbatim>\<open>await callback.completion()\<close>. A callback that fires later
  fires while the caller is suspended here; one that never fires leaves it suspended.
\<close>

definition completion :: "callback \<Rightarrow> unit coroutine" where
  "completion cb w =
     (let w1 = emit (Wait_completion (cb_op cb)) w in
      case cb_signal cb of
        Fulfilled oc \<Rightarrow> settle oc w1
      | Unfulfilled (Some oc) \<Rightarrow>
          settle oc (fire (cb_op cb) (cb_log cb) oc
            (w1\<lparr>pending := remove1 (cb_op cb, cb_log cb, oc) (pending w1)\<rparr>))
      | Unfulfilled None \<Rightarrow> (Suspended (On_completion (cb_op cb)), w1))"

text \<open>
  Modelled from the spec: \<^verbatim>\<open>await inbox.get()\<close> on the inbox \<open>r\<close> of the inbox manager;
  on an empty inbox the caller stays suspended.
\<close>

definition inbox_get :: "inbox_ref \<Rightarrow> item coroutine" where
  "inbox_get r w =
     (let w1 = emit (Wait_inbox r) w in
      case inbox_manager w1 r of
        None \<Rightarrow> (Suspended (On_inbox r), w1)
      | Some q \<Rightarrow>
          (case AsyncClientInbox_get q of
             None \<Rightarrow> (Suspended (On_inbox r), w1)
           | Some (x, q') \<Rightarrow> (Returned x, w1\<lparr>inbox_manager := (inbox_manager w1)(r \<mapsto> q')\<rparr>)))"

text \<open>
  Modelled from the spec: \<^verbatim>\<open>get_method_request_inbox\<close>, \<^verbatim>\<open>get_c2d_message_inbox\<close> and
  \<^verbatim>\<open>get_input_message_inbox\<close> of the absent inbox manager, \<^verbatim>\<open>inbox_for\<close> of section 4.4:
  the inbox is created on first access, and the C2D category has one shared inbox.
\<close>

definition get_inbox :: "inbox_ref \<Rightarrow> inbox_ref coroutine" where
  "get_inbox r w = (Returned r, w\<lparr>inbox_manager := inbox_for r (inbox_manager w)\<rparr>)"

definition get_method_request_inbox :: "string option \<Rightarrow> inbox_ref coroutine" where
  "get_method_request_inbox method_name = get_inbox (Method_requests, method_name)"

definition get_c2d_message_inbox :: "inbox_ref coroutine" where
  "get_c2d_message_inbox = get_inbox (C2d_messages, None)"

definition get_input_message_inbox :: "string \<Rightarrow> inbox_ref coroutine" where
  "get_input_message_inbox input_name = get_inbox (Input_messages, Some input_name)"

section \<open>GenericIoTHubClient\<close>

text \<open>\<^verbatim>\<open>__init__(self, pipeline)\<close>, run in the world \<open>w\<close>.\<close>

definition GenericIoTHubClient_init :: "pipeline \<Rightarrow> world \<Rightarrow> world" where
  "GenericIoTHubClient_init p w =
     w\<lparr>pipeline := p\<lparr>on_connected := Some On_state_change,
                      on_disconnected := Some On_state_change,
                      on_method_request_received := Some Route_method_request\<rparr>,
       inbox_manager := InboxManager_init\<rparr>"

definition on_disconnected_handler :: "world \<Rightarrow> world" where
  "on_disconnected_handler w =
     emit (Log ''Cleared all pending method requests due to disconnect'')
       (w\<lparr>inbox_manager := clear_all_method_requests (inbox_manager w)\<rparr>)"

definition on_state_change :: "string \<Rightarrow> world \<Rightarrow> world" where
  "on_state_change new_state w =
     (let w1 = emit (Log (''Connection State - '' @ new_state)) w in
      if new_state = ''disconnected'' then on_disconnected_handler w1 else w1)"

definition connect :: "unit coroutine" where
  "connect =
     and_then (logger_info ''Connecting to Hub...'') (\<lambda>_.
     and_then (call_async Connect ''Successfully connected to Hub'') (\<lambda>callback.
     completion callback))"

definition disconnect :: "unit coroutine" where
  "disconnect =
     and_then (logger_info ''Disconnecting from Hub...'') (\<lambda>_.
     and_then (call_async Disconnect ''Successfully disconnected from Hub'') (\<lambda>callback.
     completion callback))"

text \<open>\<^verbatim>\<open>if not isinstance(message, Message): message = Message(message)\<close>\<close>

definition to_Message :: "pyval \<Rightarrow> pyval coroutine" where
  "to_Message message w =
     (if \<not> isinstance_Message message
      then (Returned (MessageRef (length (messages w))),
            w\<lparr>messages := messages w @ [\<lparr>data = message, output_name = None\<rparr>]\<rparr>)
      else (Returned message, w))"

definition send_d2c_message :: "pyval \<Rightarrow> unit coroutine" where
  "send_d2c_message message =
     and_then (to_Message message) (\<lambda>message.
     and_then (logger_info ''Sending message to Hub...'') (\<lambda>_.
     and_then (call_async (Send_d2c_message message) ''Successfully sent message to Hub'')
       (\<lambda>callback.
     completion callback)))"

definition enable_feature :: "feature \<Rightarrow> unit coroutine" where
  "enable_feature feature_name =
     and_then (\<lambda>w. logger_info (''Enabling feature:'' @ constant_str w feature_name @ ''...'') w)
       (\<lambda>_.
     and_then (\<lambda>w. call_async (Enable_feature feature_name)
                 (''Successfully enabled feature:'' @ constant_str w feature_name) w) (\<lambda>callback.
     return ()))"

definition receive_method_request :: "string option \<Rightarrow> item coroutine" where
  "receive_method_request method_name =
     and_then (\<lambda>w. if \<not> feature_enabled (pipeline w) METHODS
                   then enable_feature METHODS w else return () w) (\<lambda>_.
     and_then (get_method_request_inbox method_name) (\<lambda>method_inbox.
     and_then (logger_info ''Waiting for method request...'') (\<lambda>_.
     and_then (inbox_get method_inbox) (\<lambda>method_request.
     and_then (logger_info ''Received method request'') (\<lambda>_.
     return method_request)))))"

definition send_method_response :: "pyval \<Rightarrow> unit coroutine" where
  "send_method_response method_response =
     and_then (logger_info ''Sending method response to Hub...'') (\<lambda>_.
     and_then (call_async (Send_method_response method_response)
                 ''Successfully sent method response to Hub'') (\<lambda>callback.
     completion callback))"

definition get_twin :: "unit coroutine" where
  "get_twin = return ()"

definition patch_twin_reported_properties :: "pyval \<Rightarrow> unit coroutine" where
  "patch_twin_reported_properties reported_properties_patch = return ()"

definition receive_twin_desired_properties_patch :: "unit coroutine" where
  "receive_twin_desired_properties_patch = return ()"

section \<open>IoTHubDeviceClient\<close>

definition IoTHubDeviceClient_init :: "pipeline \<Rightarrow> world \<Rightarrow> world" where
  "IoTHubDeviceClient_init p w =
     (let w1 = GenericIoTHubClient_init p w in
      w1\<lparr>pipeline := (pipeline w1)\<lparr>on_c2d_message_received := Some Route_c2d_message\<rparr>\<rparr>)"

definition receive_c2d_message :: "item coroutine" where
  "receive_c2d_message =
     and_then (\<lambda>w. if \<not> feature_enabled (pipeline w) C2D_MSG
                   then enable_feature C2D_MSG w else return () w) (\<lambda>_.
     and_then get_c2d_message_inbox (\<lambda>c2d_inbox.
     and_then (logger_info ''Waiting for C2D message...'') (\<lambda>_.
     and_then (inbox_get c2d_inbox) (\<lambda>message.
     and_then (logger_info ''C2D message received'') (\<lambda>_.
     return message)))))"

section \<open>IoTHubModuleClient\<close>

definition IoTHubModuleClient_init :: "pipeline \<Rightarrow> world \<Rightarrow> world" where
  "IoTHubModuleClient_init p w =
     (let w1 = GenericIoTHubClient_init p w in
      w1\<lparr>pipeline := (pipeline w1)\<lparr>on_input_message_received := Some Route_input_message\<rparr>\<rparr>)"

text \<open>
  \<^verbatim>\<open>message.output_name = output_name\<close>: an assignment to the object the reference names.
  By then the message is a \<^verbatim>\<open>Message\<close>; another value has no such attribute.
\<close>

definition set_output_name :: "pyval \<Rightarrow> string \<Rightarrow> unit coroutine" where
  "set_output_name message name w =
     (case message of
        MessageRef a \<Rightarrow>
          (Returned (),
           w\<lparr>messages := (messages w)[a := (messages w ! a)\<lparr>output_name := Some name\<rparr>]\<rparr>)
      | _ \<Rightarrow> (Raised ''AttributeError'', w))"

definition send_to_output :: "pyval \<Rightarrow> string \<Rightarrow> unit coroutine" where
  "send_to_output message name =
     and_then (to_Message message) (\<lambda>message.
     and_then (set_output_name message name) (\<lambda>_.
     and_then (logger_info (''Sending message to output:'' @ name @ ''...'')) (\<lambda>_.
     and_then (call_async (Send_output_event message)
                 (''Successfully sent message to output: '' @ name)) (\<lambda>callback.
     completion callback))))"

definition receive_input_message :: "string \<Rightarrow> item coroutine" where
  "receive_input_message input_name =
     and_then (\<lambda>w. if \<not> feature_enabled (pipeline w) INPUT_MSG
                   then enable_feature INPUT_MSG w else return () w) (\<lambda>_.
     and_then (get_input_message_inbox input_name) (\<lambda>inbox.
     and_then (logger_info (''Waiting for input message on: '' @ input_name @ ''...'')) (\<lambda>_.
     and_then (inbox_get inbox) (\<lambda>message.
     and_then (logger_info (''Input message received on: '' @ input_name)) (\<lambda>_.
     return message)))))"

section \<open>What the transport does to a client\<close>

text \<open>
  Modelled from the spec: the pipeline is not part of the source file. Section 6: it
  invokes the handler assigned to a slot whenever a matching event arrives, with the new
  connection state or with the inbound event; an empty slot has nobody to invoke.
\<close>

datatype conn_slot = Connected_slot | Disconnected_slot

fun state_slot :: "conn_slot \<Rightarrow> pipeline \<Rightarrow> state_handler option" where
  "state_slot Connected_slot p = on_connected p"
| "state_slot Disconnected_slot p = on_disconnected p"

definition state_notification :: "conn_slot \<Rightarrow> string \<Rightarrow> world \<Rightarrow> world" where
  "state_notification sl new_state w =
     (case state_slot sl (pipeline w) of
        None \<Rightarrow> w
      | Some On_state_change \<Rightarrow> on_state_change new_state w)"

fun inbound_slot :: "category \<Rightarrow> pipeline \<Rightarrow> inbound_handler option" where
  "inbound_slot Method_requests p = on_method_request_received p"
| "inbound_slot C2d_messages p = on_c2d_message_received p"
| "inbound_slot Input_messages p = on_input_message_received p"

fun route :: "inbound_handler \<Rightarrow> item \<Rightarrow> inbox_manager \<Rightarrow> inbox_manager" where
  "route Route_method_request x im = route_method_request x im"
| "route Route_c2d_message x im = route_c2d_message x im"
| "route Route_input_message x im = route_input_message x im"

definition inbound_event :: "category \<Rightarrow> item \<Rightarrow> world \<Rightarrow> world" where
  "inbound_event c x w =
     (case inbound_slot c (pipeline w) of
        None \<Rightarrow> w
      | Some h \<Rightarrow> w\<lparr>inbox_manager := route h x (inbox_manager w)\<rparr>)"

text \<open>
  Modelled from the spec: a callback that was pending when its entry point returned fires
  later, at a time of the transport's choosing.
\<close>

definition late_callback :: "world \<Rightarrow> world" where
  "late_callback w =
     (case pending w of
        [] \<Rightarrow> w
      | (op, msg, oc) # rest \<Rightarrow> fire op msg oc (w\<lparr>pending := rest\<rparr>))"

section \<open>The life of a client\<close>

datatype client_class = GenericIoTHubClient | IoTHubDeviceClient | IoTHubModuleClient

fun init :: "client_class \<Rightarrow> pipeline \<Rightarrow> world \<Rightarrow> world" where
  "init GenericIoTHubClient p w = GenericIoTHubClient_init p w"
| "init IoTHubDeviceClient p w = IoTHubDeviceClient_init p w"
| "init IoTHubModuleClient p w = IoTHubModuleClient_init p w"

text \<open>The calls a user of a client can make.\<close>

datatype call =
    Call_connect
  | Call_disconnect
  | Call_send_d2c_message pyval
  | Call_receive_method_request "string option"
  | Call_send_method_response pyval
  | Call_get_twin
  | Call_patch_twin_reported_properties pyval
  | Call_receive_twin_desired_properties_patch
  | Call_receive_c2d_message
  | Call_send_to_output pyval string
  | Call_receive_input_message string

text \<open>The methods each class has: those of the generic client and its own.\<close>

fun has_method :: "client_class \<Rightarrow> call \<Rightarrow> bool" where
  "has_method cls Call_receive_c2d_message = (cls = IoTHubDeviceClient)"
| "has_method cls (Call_send_to_output message name) = (cls = IoTHubModuleClient)"
| "has_method cls (Call_receive_input_message input_name) = (cls = IoTHubModuleClient)"
| "has_method cls c = True"

fun perform :: "call \<Rightarrow> world \<Rightarrow> world" where
  "perform Call_connect w = snd (connect w)"
| "perform Call_disconnect w = snd (disconnect w)"
| "perform (Call_send_d2c_message message) w = snd (send_d2c_message message w)"
| "perform (Call_receive_method_request method_name) w = snd (receive_method_request method_name w)"
| "perform (Call_send_method_response method_response) w =
     snd (send_method_response method_response w)"
| "perform Call_get_twin w = snd (get_twin w)"
| "perform (Call_patch_twin_reported_properties patch) w =
     snd (patch_twin_reported_properties patch w)"
| "perform Call_receive_twin_desired_properties_patch w =
     snd (receive_twin_desired_properties_patch w)"
| "perform Call_receive_c2d_message w = snd (receive_c2d_message w)"
| "perform (Call_send_to_output message name) w = snd (send_to_output message name w)"
| "perform (Call_receive_input_message input_name) w = snd (receive_input_message input_name w)"

text \<open>
  What happens around a client: the transport notifies a state change, delivers an inbound
  event, fires a pending callback, or changes the feature flags and responses it owns; the
  caller creates a \<^verbatim>\<open>Message\<close>.
\<close>

datatype happening =
    State_notification conn_slot string
  | Inbound_event category item
  | Late_callback
  | Transport_sets "feature \<Rightarrow> bool" "pipeline_op \<Rightarrow> response"
  | Caller_creates message

fun happen :: "happening \<Rightarrow> world \<Rightarrow> world" where
  "happen (State_notification sl new_state) w = state_notification sl new_state w"
| "happen (Inbound_event c x) w = inbound_event c x w"
| "happen Late_callback w = late_callback w"
| "happen (Transport_sets flags resp) w =
     w\<lparr>pipeline := (pipeline w)\<lparr>feature_enabled := flags, response := resp\<rparr>\<rparr>"
| "happen (Caller_creates m) w = w\<lparr>messages := messages w @ [m]\<rparr>"

text \<open>The worlds a client of class \<open>cls\<close> can be in, from the world its constructor left.\<close>

inductive reach :: "client_class \<Rightarrow> world \<Rightarrow> world \<Rightarrow> bool" for cls :: client_class and w0 :: world
  where
    reach_init: "reach cls w0 w0"
  | reach_call: "reach cls w0 w \<Longrightarrow> has_method cls c \<Longrightarrow> reach cls w0 (perform c w)"
  | reach_happen: "reach cls w0 w \<Longrightarrow> reach cls w0 (happen h w)"

section \<open>Notions used in the statements and proofs\<close>

text \<open>The five handler slots of a pipeline.\<close>

definition handlers :: "pipeline \<Rightarrow> state_handler option \<times> state_handler option \<times>
    inbound_handler option \<times> inbound_handler option \<times> inbound_handler option" where
  "handlers p = (on_connected p, on_disconnected p, on_method_request_received p,
     on_c2d_message_received p, on_input_message_received p)"

text \<open>The calls into the pipeline among some events, each with the store as it was then.\<close>

fun invoked :: "event list \<Rightarrow> (pipeline_op \<times> message list) list" where
  "invoked [] = []"
| "invoked (Invoke op ms # evs) = (op, ms) # invoked evs"
| "invoked (ev # evs) = invoked evs"

text \<open>A value is live in a world when, if it is a reference, it names an object of the store.\<close>

fun live :: "world \<Rightarrow> pyval \<Rightarrow> bool" where
  "live w (MessageRef a) = (a < length (messages w))"
| "live w v = True"

text \<open>No inbox of the categories \<open>C\<close> exists in the inbox manager.\<close>

definition no_inbox :: "category set \<Rightarrow> world \<Rightarrow> bool" where
  "no_inbox C w = (\<forall>r. fst r \<in> C \<longrightarrow> inbox_manager w r = None)"

text \<open>The category of the inboxes a routing handler puts into.\<close>

fun routes_to :: "inbound_handler \<Rightarrow> category" where
  "routes_to Route_method_request = Method_requests"
| "routes_to Route_c2d_message = C2d_messages"
| "routes_to Route_input_message = Input_messages"

definition routes_outside :: "category set \<Rightarrow> pipeline \<Rightarrow> bool" where
  "routes_outside C p = (\<forall>c h. inbound_slot c p = Some h \<longrightarrow> routes_to h \<notin> C)"

text \<open>A coroutine leaves the pipeline as it is and creates no inbox of the categories \<open>C\<close>.\<close>

definition keeps :: "category set \<Rightarrow> pipeline \<Rightarrow> 'a coroutine \<Rightarrow> bool" where
  "keeps C p m = (\<forall>w. pipeline w = p \<and> no_inbox C w \<longrightarrow>
     pipeline (snd (m w)) = p \<and> no_inbox C (snd (m w)))"

text \<open>
  The two halves of a receive operation: the feature is enabled if its flag is false, then
  the inbox is fetched and awaited.
\<close>

abbreviation enable_if_disabled :: "feature \<Rightarrow> unit coroutine" where
  "enable_if_disabled f \<equiv>
     (\<lambda>w. if \<not> feature_enabled (pipeline w) f then enable_feature f w else return () w)"

abbreviation wait_for_item :: "inbox_ref \<Rightarrow> string \<Rightarrow> string \<Rightarrow> item coroutine" where
  "wait_for_item r l1 l2 \<equiv>
     and_then (get_inbox r) (\<lambda>inbox.
     and_then (logger_info l1) (\<lambda>_.
     and_then (inbox_get inbox) (\<lambda>x.
     and_then (logger_info l2) (\<lambda>_.
     return x))))"



section \<open>Worlds to run the clients in\<close>

text \<open>A pipeline with no feature enabled and no handler assigned, answering every call by \<open>r\<close>.\<close>

definition idle_pipeline :: "response \<Rightarrow> pipeline" where
  "idle_pipeline r =
     \<lparr>feature_enabled = (\<lambda>f. False), on_connected = None, on_disconnected = None,
      on_method_request_received = None, on_c2d_message_received = None,
      on_input_message_received = None, response = (\<lambda>op. r)\<rparr>"

text \<open>Values for the three feature constants, for the worlds below.\<close>

definition feature_names :: "feature \<Rightarrow> string" where
  "feature_names f = (case f of METHODS \<Rightarrow> ''methods'' | C2D_MSG \<Rightarrow> ''c2d'' | INPUT_MSG \<Rightarrow> ''input'')"

text \<open>The world before any client is built: an empty store and an empty trace.\<close>

definition first_world :: world where
  "first_world =
     \<lparr>pipeline = idle_pipeline Never_fires, inbox_manager = Map.empty, messages = [],
      constant_str = feature_names, trace = [], pending = []\<rparr>"

text \<open>
  A device client with one method request and one C2D message delivered and not yet received.
\<close>

definition queued_device_world :: world where
  "queued_device_world =
     inbound_event C2d_messages (Item None (PyStr ''hello''))
       (inbound_event Method_requests (Item (Some ''reboot'') PyNone)
          (IoTHubDeviceClient_init (idle_pipeline Never_fires) first_world))"

text \<open>
  A module client that is notified of a disconnect, is sent a method request, and is
  notified of a disconnect again, through the other slot.
\<close>

definition twice_disconnected_world :: world where
  "twice_disconnected_world =
     state_notification Connected_slot ''disconnected''
       (happen (Inbound_event Method_requests (Item (Some ''reboot'') PyNone))
          (state_notification Disconnected_slot ''disconnected''
             (init IoTHubModuleClient (idle_pipeline Never_fires) first_world)))"

text \<open>
  A module client the transport tries to deliver a C2D message to, and a device client the
  transport tries to deliver an input message to.
\<close>

definition module_after_c2d :: world where
  "module_after_c2d =
     happen (Inbound_event C2d_messages (Item None (PyStr ''hello'')))
       (init IoTHubModuleClient (idle_pipeline Never_fires) first_world)"

definition device_after_input :: world where
  "device_after_input =
     happen (Inbound_event Input_messages (Item (Some ''in1'') (PyStr ''hello'')))
       (init IoTHubDeviceClient (idle_pipeline Never_fires) first_world)"

text \<open>
  A client on a pipeline whose entry points return before their callback fires with \<open>oc\<close>.
\<close>

definition late_world :: "outcome \<Rightarrow> world" where
  "late_world oc =
     init GenericIoTHubClient (idle_pipeline (Fires_after_return oc)) first_world"

text \<open>
  A module client, on a pipeline that fires every callback with success before returning,
  whose caller has created one \<^verbatim>\<open>Message\<close>.
\<close>

definition stored_world :: world where
  "stored_world =
     happen (Caller_creates \<lparr>data = PyStr ''telemetry'', output_name = None\<rparr>)
       (init IoTHubModuleClient (idle_pipeline (Fires_before_return Success)) first_world)"

text \<open>
  A client that has been sent the method request \<^verbatim>\<open>reboot\<close>, on a pipeline with no
  feature enabled whose entry points answer by \<open>r\<close>.
\<close>

definition requested_world :: "response \<Rightarrow> world" where
  "requested_world r =
     happen (Inbound_event Method_requests (Item (Some ''reboot'') PyNone))
       (init GenericIoTHubClient (idle_pipeline r) first_world)"

section \<open>The pipeline and the inboxes of other categories are kept\<close>

lemma keeps_and_then:
  assumes "keeps c p m" and "\<And>x. keeps c p (k x)"
  shows "keeps c p (and_then m k)"
  unfolding keeps_def
proof (intro allI impI)
  fix w assume w: "pipeline w = p \<and> no_inbox c w"
  obtain r w1 where m: "m w = (r, w1)" by (cases "m w")
  from assms(1) w m have w1: "pipeline w1 = p \<and> no_inbox c w1"
    unfolding keeps_def by fastforce
  show "pipeline (snd (and_then m k w)) = p \<and> no_inbox c (snd (and_then m k w))"
  proof (cases r)
    case (Returned x)
    with assms(2) [of x] w1 m show ?thesis
      unfolding keeps_def and_then_def by simp
  next
    case (Raised e)
    with w1 m show ?thesis by (simp add: and_then_def)
  next
    case (Suspended s)
    with w1 m show ?thesis by (simp add: and_then_def)
  qed
qed

lemma keeps_return: "keeps c p (return x)"
  by (simp add: keeps_def return_def)

lemma keeps_logger_info: "keeps c p (logger_info s)"
  by (simp add: keeps_def logger_info_def emit_def no_inbox_def)

lemma keeps_call_async: "keeps c p (call_async op msg)"
  by (simp add: keeps_def call_async_def fire_def emit_def no_inbox_def Let_def
      split: response.splits outcome.splits)

lemma keeps_completion: "keeps c p (completion cb)"
  by (simp add: keeps_def completion_def settle_def fire_def emit_def no_inbox_def Let_def
      split: signal.splits option.splits outcome.splits)

lemma keeps_to_Message: "keeps c p (to_Message v)"
  by (simp add: keeps_def to_Message_def no_inbox_def)

lemma keeps_set_output_name: "keeps c p (set_output_name v n)"
  by (simp add: keeps_def set_output_name_def no_inbox_def split: pyval.splits)

lemma keeps_get_inbox: "fst r \<notin> c \<Longrightarrow> keeps c p (get_inbox r)"
  by (cases r) (auto simp: keeps_def get_inbox_def inbox_for_def no_inbox_def split: option.splits)

lemma keeps_inbox_get: "keeps c p (inbox_get r)"
  by (cases r) (auto simp: keeps_def inbox_get_def emit_def no_inbox_def Let_def
      split: option.splits)

lemma keeps_enable_feature: "keeps c p (enable_feature f)"
  unfolding enable_feature_def
  apply (intro keeps_and_then keeps_return)
  apply (simp_all add: keeps_def)
  using keeps_logger_info keeps_call_async unfolding keeps_def by blast+

lemma keeps_enable_if: "keeps c p (\<lambda>w. if \<not> feature_enabled (pipeline w) f then enable_feature f w else return () w)"
  using keeps_enable_feature [of c p f] keeps_return [of c p "()"] unfolding keeps_def by simp

lemmas keeps_intros = keeps_and_then keeps_return keeps_logger_info keeps_call_async
  keeps_completion keeps_to_Message keeps_set_output_name keeps_enable_if

lemma keeps_connect: "keeps c p connect"
  unfolding connect_def by (intro keeps_intros)

lemma keeps_disconnect: "keeps c p disconnect"
  unfolding disconnect_def by (intro keeps_intros)

lemma keeps_send_d2c_message: "keeps c p (send_d2c_message v)"
  unfolding send_d2c_message_def by (intro keeps_intros)

lemma keeps_send_method_response: "keeps c p (send_method_response v)"
  unfolding send_method_response_def by (intro keeps_intros)

lemma keeps_send_to_output: "keeps c p (send_to_output v n)"
  unfolding send_to_output_def by (intro keeps_intros)

lemma keeps_receive_method_request:
  "Method_requests \<notin> c \<Longrightarrow> keeps c p (receive_method_request n)"
  unfolding receive_method_request_def get_method_request_inbox_def
  by (intro keeps_intros keeps_get_inbox keeps_inbox_get) simp

lemma keeps_receive_c2d_message:
  "C2d_messages \<notin> c \<Longrightarrow> keeps c p receive_c2d_message"
  unfolding receive_c2d_message_def get_c2d_message_inbox_def
  by (intro keeps_intros keeps_get_inbox keeps_inbox_get) simp

lemma keeps_receive_input_message:
  "Input_messages \<notin> c \<Longrightarrow> keeps c p (receive_input_message n)"
  unfolding receive_input_message_def get_input_message_inbox_def
  by (intro keeps_intros keeps_get_inbox keeps_inbox_get) simp

lemma keeps_twin:
  "keeps c p get_twin" "keeps c p (patch_twin_reported_properties v)"
  "keeps c p receive_twin_desired_properties_patch"
  by (simp_all add: get_twin_def patch_twin_reported_properties_def
      receive_twin_desired_properties_patch_def keeps_return)


lemma keepsD:
  "keeps C p m \<Longrightarrow> pipeline w = p \<Longrightarrow> no_inbox C w \<Longrightarrow>
   pipeline (snd (m w)) = p \<and> no_inbox C (snd (m w))"
  by (simp add: keeps_def)

lemma keeps_perform:
  assumes "has_method cls call" and "Method_requests \<notin> C"
    and "C2d_messages \<in> C \<Longrightarrow> cls \<noteq> IoTHubDeviceClient"
    and "Input_messages \<in> C \<Longrightarrow> cls \<noteq> IoTHubModuleClient"
    and "pipeline w = p" and "no_inbox C w"
  shows "pipeline (perform call w) = p \<and> no_inbox C (perform call w)"
proof (cases call)
  case Call_connect
  then show ?thesis using keepsD [OF keeps_connect assms(5,6)] by simp
next
  case Call_disconnect
  then show ?thesis using keepsD [OF keeps_disconnect assms(5,6)] by simp
next
  case (Call_send_d2c_message v)
  then show ?thesis using keepsD [OF keeps_send_d2c_message assms(5,6)] by simp
next
  case (Call_receive_method_request n)
  then show ?thesis
    using keepsD [OF keeps_receive_method_request [OF assms(2)] assms(5,6)] by simp
next
  case (Call_send_method_response v)
  then show ?thesis using keepsD [OF keeps_send_method_response assms(5,6)] by simp
next
  case Call_get_twin
  then show ?thesis using keepsD [OF keeps_twin(1) assms(5,6)] by simp
next
  case (Call_patch_twin_reported_properties v)
  then show ?thesis using keepsD [OF keeps_twin(2) assms(5,6)] by simp
next
  case Call_receive_twin_desired_properties_patch
  then show ?thesis using keepsD [OF keeps_twin(3) assms(5,6)] by simp
next
  case Call_receive_c2d_message
  with assms(1,3) have "C2d_messages \<notin> C" by auto
  from keepsD [OF keeps_receive_c2d_message [OF this] assms(5,6)] Call_receive_c2d_message
  show ?thesis by simp
next
  case (Call_send_to_output v n)
  then show ?thesis using keepsD [OF keeps_send_to_output assms(5,6)] by simp
next
  case (Call_receive_input_message n)
  with assms(1,4) have "Input_messages \<notin> C" by auto
  from keepsD [OF keeps_receive_input_message [OF this] assms(5,6)] Call_receive_input_message
  show ?thesis by simp
qed

lemma no_inbox_put_in:
  assumes "fst r \<notin> C" and "\<forall>r'. fst r' \<in> C \<longrightarrow> im r' = None" and "fst r' \<in> C"
  shows "put_in r x im r' = None"
proof -
  from assms(1,3) have "r' \<noteq> r" by auto
  moreover from assms(2,3) have "im r' = None" by blast
  ultimately show ?thesis
    by (simp add: put_in_def inbox_for_def split: option.splits)
qed

lemma no_inbox_route:
  assumes "routes_to h \<notin> C" and "\<forall>r'. fst r' \<in> C \<longrightarrow> im r' = None" and "fst r' \<in> C"
  shows "route h x im r' = None"
proof (cases h)
  case Route_method_request
  with assms show ?thesis
    by (simp add: route_method_request_def no_inbox_put_in split: option.splits)
next
  case Route_c2d_message
  with assms show ?thesis by (simp add: route_c2d_message_def no_inbox_put_in)
next
  case Route_input_message
  with assms show ?thesis by (simp add: route_input_message_def no_inbox_put_in)
qed

lemma handlers_happen: "handlers (pipeline (happen h w)) = handlers (pipeline w)"
proof (cases h)
  case (State_notification sl s)
  then show ?thesis
    by (simp add: state_notification_def on_state_change_def on_disconnected_handler_def
        emit_def Let_def split: option.splits state_handler.splits)
next
  case (Inbound_event c x)
  then show ?thesis by (simp add: inbound_event_def split: option.splits)
next
  case Late_callback
  then show ?thesis
    by (simp add: late_callback_def fire_def emit_def split: list.splits outcome.splits)
next
  case (Transport_sets flags resp)
  then show ?thesis by (simp add: handlers_def)
next
  case (Caller_creates m)
  then show ?thesis by simp
qed

lemma routes_outside_handlers:
  "handlers p = handlers p' \<Longrightarrow> routes_outside C p = routes_outside C p'"
proof -
  assume "handlers p = handlers p'"
  then have "inbound_slot c p = inbound_slot c p'" for c
    by (cases c) (simp_all add: handlers_def)
  then show ?thesis by (simp add: routes_outside_def)
qed

lemma no_inbox_happen:
  assumes "Method_requests \<notin> C" and "routes_outside C (pipeline w)" and "no_inbox C w"
  shows "no_inbox C (happen h w)"
proof (cases h)
  case (State_notification sl s)
  with assms(3) show ?thesis
    by (simp add: state_notification_def on_state_change_def on_disconnected_handler_def
        clear_all_method_requests_def emit_def Let_def no_inbox_def
        split: option.splits state_handler.splits)
next
  case (Inbound_event c x)
  show ?thesis
  proof (cases "inbound_slot c (pipeline w)")
    case None
    with Inbound_event assms(3) show ?thesis by (simp add: inbound_event_def)
  next
    case (Some hd)
    with assms(2) have "routes_to hd \<notin> C" by (auto simp: routes_outside_def)
    with Some Inbound_event assms(3) show ?thesis
      by (simp add: inbound_event_def no_inbox_def no_inbox_route)
  qed
next
  case Late_callback
  with assms(3) show ?thesis
    by (simp add: late_callback_def fire_def emit_def no_inbox_def
        split: list.splits outcome.splits)
next
  case (Transport_sets flags resp)
  with assms(3) show ?thesis by (simp add: no_inbox_def)
next
  case (Caller_creates m)
  with assms(3) show ?thesis by (simp add: no_inbox_def)
qed

lemma reach_invariant:
  assumes "reach cls w0 w" and "Method_requests \<notin> C"
    and "C2d_messages \<in> C \<Longrightarrow> cls \<noteq> IoTHubDeviceClient"
    and "Input_messages \<in> C \<Longrightarrow> cls \<noteq> IoTHubModuleClient"
    and "routes_outside C (pipeline w0)" and "no_inbox C w0"
  shows "handlers (pipeline w) = handlers (pipeline w0) \<and> no_inbox C w"
  using assms(1)
proof (induction rule: reach.induct)
  case reach_init
  show ?case using assms(6) by simp
next
  case (reach_call w c)
  from keeps_perform [OF reach_call.hyps(2) assms(2,3,4) refl, of w] reach_call.IH
  show ?case by simp
next
  case (reach_happen w h)
  from reach_happen.IH assms(5) have "routes_outside C (pipeline w)"
    using routes_outside_handlers by blast
  from no_inbox_happen [OF assms(2) this] reach_happen.IH handlers_happen [of h w]
  show ?case by simp
qed


section \<open>Connection state changes\<close>

lemma clear_all_method_requests_at:
  "clear_all_method_requests im r =
     (if fst r = Method_requests then map_option (\<lambda>q. []) (im r) else im r)"
  by (cases "im r") (simp_all add: clear_all_method_requests_def AsyncClientInbox_clear_def)

lemma inbox_manager_on_state_change:
  "inbox_manager (on_state_change new_state w) =
     (if new_state = ''disconnected'' then clear_all_method_requests (inbox_manager w)
      else inbox_manager w)"
  by (simp add: on_state_change_def on_disconnected_handler_def emit_def Let_def)

lemma trace_on_state_change:
  "trace (on_state_change new_state w) =
     trace w @ Log (''Connection State - '' @ new_state) #
       (if new_state = ''disconnected''
        then [Log ''Cleared all pending method requests due to disconnect''] else [])"
  by (simp add: on_state_change_def on_disconnected_handler_def emit_def Let_def)

lemma rest_on_state_change:
  "pipeline (on_state_change new_state w) = pipeline w \<and>
   messages (on_state_change new_state w) = messages w \<and>
   pending (on_state_change new_state w) = pending w"
  by (simp add: on_state_change_def on_disconnected_handler_def emit_def Let_def)

lemma handlers_init:
  "handlers (pipeline (init cls p w0)) =
     (Some On_state_change, Some On_state_change, Some Route_method_request,
      if cls = IoTHubDeviceClient then Some Route_c2d_message else on_c2d_message_received p,
      if cls = IoTHubModuleClient then Some Route_input_message else on_input_message_received p)"
  by (cases cls) (simp_all add: handlers_def GenericIoTHubClient_init_def
      IoTHubDeviceClient_init_def IoTHubModuleClient_init_def Let_def)

lemma inbox_manager_init: "inbox_manager (init cls p w0) = Map.empty"
  by (cases cls) (simp_all add: GenericIoTHubClient_init_def
      IoTHubDeviceClient_init_def IoTHubModuleClient_init_def InboxManager_init_def Let_def)

lemma reach_handlers:
  assumes "reach cls w0 w"
  shows "handlers (pipeline w) = handlers (pipeline w0)"
  using reach_invariant [OF assms, of "{}"] by (simp add: routes_outside_def no_inbox_def)

text \<open>
  C3. A state-change notification that reaches the client's handler clears every
  method-request inbox if and only if the new state is \<^verbatim>\<open>"disconnected"\<close>: the inboxes of
  the other categories are as they were, a notification with any other state leaves every
  inbox as it was, and \<^verbatim>\<open>clear_all_method_requests\<close> is called (its log line appears)
  exactly for \<^verbatim>\<open>"disconnected"\<close>.
\<close>

theorem state_change_clears_method_requests_only:
  assumes "state_slot sl (pipeline w) = Some On_state_change"
  shows "(\<forall>r. inbox_manager (state_notification sl new_state w) r =
      (if new_state = ''disconnected'' \<and> fst r = Method_requests
       then map_option (\<lambda>q. []) (inbox_manager w r) else inbox_manager w r)) \<and>
   (Log ''Cleared all pending method requests due to disconnect''
      \<in> set (new_events w (state_notification sl new_state w))
    \<longleftrightarrow> new_state = ''disconnected'') \<and>
   pipeline (state_notification sl new_state w) = pipeline w \<and>
   messages (state_notification sl new_state w) = messages w"
  using assms
  by (simp add: state_notification_def inbox_manager_on_state_change trace_on_state_change
      rest_on_state_change clear_all_method_requests_at new_events_def)

lemma queued_device_world_simps:
  "pipeline queued_device_world =
     (idle_pipeline Never_fires)\<lparr>on_connected := Some On_state_change,
        on_disconnected := Some On_state_change,
        on_method_request_received := Some Route_method_request,
        on_c2d_message_received := Some Route_c2d_message\<rparr>"
  "inbox_manager queued_device_world =
     [(Method_requests, None) \<mapsto> [Item (Some ''reboot'') PyNone],
      (C2d_messages, None) \<mapsto> [Item None (PyStr ''hello'')]]"
  by (simp_all add: queued_device_world_def inbound_event_def IoTHubDeviceClient_init_def
      GenericIoTHubClient_init_def InboxManager_init_def first_world_def idle_pipeline_def
      route_method_request_def route_c2d_message_def put_in_def inbox_for_def
      AsyncClientInbox_put_def Let_def fun_upd_twist)

theorem state_change_clears_method_requests_only_witness:
  "state_slot Disconnected_slot (pipeline queued_device_world) = Some On_state_change \<and>
   inbox_manager (state_notification Disconnected_slot ''disconnected'' queued_device_world)
     (Method_requests, None) = Some [] \<and>
   inbox_manager (state_notification Disconnected_slot ''disconnected'' queued_device_world)
     (C2d_messages, None) = Some [Item None (PyStr ''hello'')] \<and>
   inbox_manager (state_notification Disconnected_slot ''connected'' queued_device_world)
     (Method_requests, None) = Some [Item (Some ''reboot'') PyNone]"
proof -
  have h: "state_slot Disconnected_slot (pipeline queued_device_world) = Some On_state_change"
    by (simp add: queued_device_world_simps)
  from state_change_clears_method_requests_only [OF h, of "''disconnected''"]
    state_change_clears_method_requests_only [OF h, of "''connected''"] h
  show ?thesis by (simp add: queued_device_world_simps)
qed


lemma slots_of_reach:
  assumes "reach cls (init cls p w0) w"
  shows "on_connected (pipeline w) = Some On_state_change"
    and "on_disconnected (pipeline w) = Some On_state_change"
    and "on_method_request_received (pipeline w) = Some Route_method_request"
    and "on_c2d_message_received (pipeline w) =
      (if cls = IoTHubDeviceClient then Some Route_c2d_message else on_c2d_message_received p)"
    and "on_input_message_received (pipeline w) =
      (if cls = IoTHubModuleClient then Some Route_input_message
       else on_input_message_received p)"
  using reach_handlers [OF assms] handlers_init [of cls p w0]
  by (simp_all add: handlers_def)

lemma state_notification_installed:
  assumes "reach cls (init cls p w0) w"
  shows "state_notification sl new_state w = on_state_change new_state w"
  using slots_of_reach(1,2) [OF assms]
  by (cases sl) (simp_all add: state_notification_def)

text \<open>
  C8. From construction onward both the \<^verbatim>\<open>on_connected\<close> and the \<^verbatim>\<open>on_disconnected\<close>
  slot hold the same handler, so a notification does the same whichever slot fires; what
  it does to the inboxes is a function of the new state and the inboxes alone (the world
  holds no previous connection state), and every notification with the state
  \<^verbatim>\<open>"disconnected"\<close> empties the method-request inboxes, also one that follows an earlier
  \<^verbatim>\<open>"disconnected"\<close> notification.
\<close>

theorem purge_depends_only_on_new_state:
  assumes "reach cls (init cls p w0) w"
  shows "on_connected (pipeline w) = Some On_state_change \<and>
    on_disconnected (pipeline w) = Some On_state_change \<and>
    state_notification Connected_slot new_state w =
      state_notification Disconnected_slot new_state w \<and>
    (\<forall>sl. inbox_manager (state_notification sl new_state w) =
       (if new_state = ''disconnected'' then clear_all_method_requests (inbox_manager w)
        else inbox_manager w)) \<and>
    (\<forall>sl k. inbox_manager (state_notification sl ''disconnected'' w) (Method_requests, k) =
       map_option (\<lambda>q. []) (inbox_manager w (Method_requests, k))) \<and>
    (\<forall>sl sl' h k.
       inbox_manager (state_notification sl' ''disconnected''
         (happen h (state_notification sl ''disconnected'' w))) (Method_requests, k) =
       map_option (\<lambda>q. [])
         (inbox_manager (happen h (state_notification sl ''disconnected'' w))
            (Method_requests, k)))"
proof -
  have again: "reach cls (init cls p w0) (happen h (state_notification sl ''disconnected'' w))"
    for h sl
    using reach_happen [OF reach_happen [OF assms, of "State_notification sl ''disconnected''"],
        of h]
    by simp
  have one: "inbox_manager (state_notification sl s w) =
      (if s = ''disconnected'' then clear_all_method_requests (inbox_manager w)
       else inbox_manager w)" for sl s
    by (simp add: state_notification_installed [OF assms] inbox_manager_on_state_change)
  have two: "inbox_manager (state_notification sl' ''disconnected''
         (happen h (state_notification sl ''disconnected'' w))) (Method_requests, k) =
       map_option (\<lambda>q. [])
         (inbox_manager (happen h (state_notification sl ''disconnected'' w))
            (Method_requests, k))" for sl sl' h k
    by (simp only: state_notification_installed [OF again] inbox_manager_on_state_change)
      (simp add: clear_all_method_requests_at)
  have same: "state_notification Connected_slot new_state w =
      state_notification Disconnected_slot new_state w"
    by (simp add: state_notification_installed [OF assms])
  from slots_of_reach(1,2) [OF assms] same one two show ?thesis
    by (simp add: clear_all_method_requests_at)
qed

theorem purge_depends_only_on_new_state_witness:
  "reach IoTHubModuleClient (init IoTHubModuleClient (idle_pipeline Never_fires) first_world)
     (init IoTHubModuleClient (idle_pipeline Never_fires) first_world) \<and>
   inbox_manager (happen (Inbound_event Method_requests (Item (Some ''reboot'') PyNone))
          (state_notification Disconnected_slot ''disconnected''
             (init IoTHubModuleClient (idle_pipeline Never_fires) first_world)))
     (Method_requests, None) = Some [Item (Some ''reboot'') PyNone] \<and>
   inbox_manager twice_disconnected_world (Method_requests, None) = Some []"
proof -
  have h: "reach IoTHubModuleClient
      (init IoTHubModuleClient (idle_pipeline Never_fires) first_world)
      (init IoTHubModuleClient (idle_pipeline Never_fires) first_world)"
    by (rule reach_init)
  have q: "inbox_manager (happen (Inbound_event Method_requests (Item (Some ''reboot'') PyNone))
          (state_notification Disconnected_slot ''disconnected''
             (init IoTHubModuleClient (idle_pipeline Never_fires) first_world)))
     (Method_requests, None) = Some [Item (Some ''reboot'') PyNone]"
    by (simp add: state_notification_def on_state_change_def on_disconnected_handler_def
        emit_def inbound_event_def IoTHubModuleClient_init_def GenericIoTHubClient_init_def
        InboxManager_init_def first_world_def idle_pipeline_def route_method_request_def
        put_in_def inbox_for_def AsyncClientInbox_put_def clear_all_method_requests_def Let_def)
  have "inbox_manager (state_notification Connected_slot ''disconnected''
       (happen (Inbound_event Method_requests (Item (Some ''reboot'') PyNone))
          (state_notification Disconnected_slot ''disconnected''
             (init IoTHubModuleClient (idle_pipeline Never_fires) first_world))))
       (Method_requests, None) =
     map_option (\<lambda>q. [])
       (inbox_manager (happen (Inbound_event Method_requests (Item (Some ''reboot'') PyNone))
          (state_notification Disconnected_slot ''disconnected''
             (init IoTHubModuleClient (idle_pipeline Never_fires) first_world)))
          (Method_requests, None))"
    using purge_depends_only_on_new_state [OF h, of "''disconnected''"] by blast
  with h q show ?thesis
    unfolding twice_disconnected_world_def by (simp del: init.simps happen.simps)
qed

section \<open>Registration of the inbound handlers\<close>

text \<open>
  C10. Every constructor assigns the method-request routing handler; the C2D routing handler
  is assigned by the device client's constructor only and the input-message routing handler
  by the module client's only, the other slot being left as the pipeline had it. No call of
  a client and nothing the transport does changes a handler slot afterwards. So, on a
  pipeline that came without a C2D handler, a module client never has a C2D message routed
  into its inbox manager, and on one that came without an input handler a device client never
  has an input message routed.
\<close>

theorem handler_registration_by_class:
  "on_method_request_received (pipeline (init cls p w0)) = Some Route_method_request \<and>
   on_c2d_message_received (pipeline (init cls p w0)) =
     (if cls = IoTHubDeviceClient then Some Route_c2d_message else on_c2d_message_received p) \<and>
   on_input_message_received (pipeline (init cls p w0)) =
     (if cls = IoTHubModuleClient then Some Route_input_message
      else on_input_message_received p) \<and>
   (reach cls (init cls p w0) w \<longrightarrow>
      handlers (pipeline w) = handlers (pipeline (init cls p w0))) \<and>
   (reach IoTHubModuleClient (init IoTHubModuleClient p w0) w \<and>
    on_c2d_message_received p = None \<longrightarrow>
      inbound_event C2d_messages x w = w \<and> (\<forall>k. inbox_manager w (C2d_messages, k) = None)) \<and>
   (reach IoTHubDeviceClient (init IoTHubDeviceClient p w0) w \<and>
    on_input_message_received p = None \<longrightarrow>
      inbound_event Input_messages x w = w \<and>
      (\<forall>k. inbox_manager w (Input_messages, k) = None))"
proof -
  have slots: "on_method_request_received (pipeline (init cls p w0)) = Some Route_method_request"
    "on_c2d_message_received (pipeline (init cls p w0)) =
       (if cls = IoTHubDeviceClient then Some Route_c2d_message else on_c2d_message_received p)"
    "on_input_message_received (pipeline (init cls p w0)) =
       (if cls = IoTHubModuleClient then Some Route_input_message
        else on_input_message_received p)"
    using handlers_init [of cls p w0] by (simp_all add: handlers_def)
  have module: "inbound_event C2d_messages x w = w \<and>
      (\<forall>k. inbox_manager w (C2d_messages, k) = None)"
    if r: "reach IoTHubModuleClient (init IoTHubModuleClient p w0) w"
      and e: "on_c2d_message_received p = None"
  proof -
    have out: "routes_outside {C2d_messages} (pipeline (init IoTHubModuleClient p w0))"
      unfolding routes_outside_def
    proof (intro allI impI)
      fix c h assume "inbound_slot c (pipeline (init IoTHubModuleClient p w0)) = Some h"
      with e handlers_init [of IoTHubModuleClient p w0]
      show "routes_to h \<notin> {C2d_messages}"
        by (cases c) (auto simp: handlers_def)
    qed
    have none: "no_inbox {C2d_messages} (init IoTHubModuleClient p w0)"
      by (simp add: no_inbox_def inbox_manager_init del: init.simps)
    from reach_invariant [OF r _ _ _ out none]
    have "no_inbox {C2d_messages} w" by simp
    moreover from slots_of_reach(4) [OF r] e have "on_c2d_message_received (pipeline w) = None"
      by simp
    ultimately show ?thesis by (simp add: inbound_event_def no_inbox_def)
  qed
  have device: "inbound_event Input_messages x w = w \<and>
      (\<forall>k. inbox_manager w (Input_messages, k) = None)"
    if r: "reach IoTHubDeviceClient (init IoTHubDeviceClient p w0) w"
      and e: "on_input_message_received p = None"
  proof -
    have out: "routes_outside {Input_messages} (pipeline (init IoTHubDeviceClient p w0))"
      unfolding routes_outside_def
    proof (intro allI impI)
      fix c h assume "inbound_slot c (pipeline (init IoTHubDeviceClient p w0)) = Some h"
      with e handlers_init [of IoTHubDeviceClient p w0]
      show "routes_to h \<notin> {Input_messages}"
        by (cases c) (auto simp: handlers_def)
    qed
    have none: "no_inbox {Input_messages} (init IoTHubDeviceClient p w0)"
      by (simp add: no_inbox_def inbox_manager_init del: init.simps)
    from reach_invariant [OF r _ _ _ out none]
    have "no_inbox {Input_messages} w" by simp
    moreover from slots_of_reach(5) [OF r] e
    have "on_input_message_received (pipeline w) = None" by simp
    ultimately show ?thesis by (simp add: inbound_event_def no_inbox_def)
  qed
  from slots module device reach_handlers [of cls "init cls p w0" w] show ?thesis by blast
qed


theorem handler_registration_by_class_witness:
  "reach IoTHubModuleClient (init IoTHubModuleClient (idle_pipeline Never_fires) first_world)
     module_after_c2d \<and>
   on_c2d_message_received (idle_pipeline Never_fires) = None \<and>
   inbox_manager module_after_c2d (C2d_messages, None) = None \<and>
   handlers (pipeline module_after_c2d) =
     (Some On_state_change, Some On_state_change, Some Route_method_request, None,
      Some Route_input_message) \<and>
   reach IoTHubDeviceClient (init IoTHubDeviceClient (idle_pipeline Never_fires) first_world)
     device_after_input \<and>
   on_input_message_received (idle_pipeline Never_fires) = None \<and>
   inbox_manager device_after_input (Input_messages, Some ''in1'') = None \<and>
   handlers (pipeline device_after_input) =
     (Some On_state_change, Some On_state_change, Some Route_method_request,
      Some Route_c2d_message, None)"
proof -
  have m: "reach IoTHubModuleClient
      (init IoTHubModuleClient (idle_pipeline Never_fires) first_world) module_after_c2d"
    unfolding module_after_c2d_def by (rule reach_happen [OF reach_init])
  have d: "reach IoTHubDeviceClient
      (init IoTHubDeviceClient (idle_pipeline Never_fires) first_world) device_after_input"
    unfolding device_after_input_def by (rule reach_happen [OF reach_init])
  have e: "on_c2d_message_received (idle_pipeline Never_fires) = None"
    "on_input_message_received (idle_pipeline Never_fires) = None"
    by (simp_all add: idle_pipeline_def)
  from handler_registration_by_class [where cls = IoTHubModuleClient
      and p = "idle_pipeline Never_fires" and ?w0.0 = first_world and w = module_after_c2d]
    handler_registration_by_class [where cls = IoTHubDeviceClient
      and p = "idle_pipeline Never_fires" and ?w0.0 = first_world and w = device_after_input]
    m d e
  show ?thesis
    by (simp add: handlers_init del: init.simps)
qed


section \<open>Twin operations\<close>

text \<open>
  C7. \<^verbatim>\<open>get_twin\<close>, \<^verbatim>\<open>patch_twin_reported_properties\<close> and
  \<^verbatim>\<open>receive_twin_desired_properties_patch\<close> are stubs: for every input each returns
  nothing and leaves the whole world, the trace of pipeline calls included, as it was.
\<close>

theorem twin_stubs:
  "get_twin w = (Returned (), w) \<and>
   patch_twin_reported_properties patch w = (Returned (), w) \<and>
   receive_twin_desired_properties_patch w = (Returned (), w)"
  by (simp add: get_twin_def patch_twin_reported_properties_def
      receive_twin_desired_properties_patch_def return_def)


section \<open>Calls through the callback bridge\<close>

lemma invoked_append [simp]: "invoked (xs @ ys) = invoked xs @ invoked ys"
  by (induction xs rule: invoked.induct) simp_all

lemma new_events_append [simp]: "trace w' = trace w @ evs \<Longrightarrow> new_events w w' = evs"
  by (simp add: new_events_def)

lemma fst_bridge:
  "fst (and_then (call_async op msg) completion w) =
     (case response (pipeline w) op of
        Raises e \<Rightarrow> Raised e
      | Fires_before_return oc \<Rightarrow> (case oc of Success \<Rightarrow> Returned () | Failure e \<Rightarrow> Raised e)
      | Fires_after_return oc \<Rightarrow> (case oc of Success \<Rightarrow> Returned () | Failure e \<Rightarrow> Raised e)
      | Never_fires \<Rightarrow> Suspended (On_completion op))"
  by (simp add: and_then_def call_async_def completion_def settle_def fire_def emit_def Let_def
      split: response.splits outcome.splits)

lemma messages_bridge:
  "messages (snd (and_then (call_async op msg) completion w)) = messages w"
  by (simp add: and_then_def call_async_def completion_def settle_def fire_def emit_def Let_def
      split: response.splits outcome.splits)

lemma trace_bridge:
  "\<exists>evs. trace (snd (and_then (call_async op msg) completion w)) =
       trace w @ Invoke op (messages w) # evs \<and> invoked evs = [] \<and>
     (fst (and_then (call_async op msg) completion w) = Returned () \<longrightarrow>
        Fire op Success \<in> set evs \<and> Wait_completion op \<in> set evs)"
  by (simp add: and_then_def call_async_def completion_def settle_def fire_def emit_def Let_def
      split: response.splits outcome.splits)

lemma logged_then:
  "and_then (logger_info s) k w = k () (emit (Log s) w)"
  by (simp add: and_then_def logger_info_def)

lemma emit_simps [simp]:
  "trace (emit ev w) = trace w @ [ev]" "messages (emit ev w) = messages w"
  "pipeline (emit ev w) = pipeline w" "inbox_manager (emit ev w) = inbox_manager w"
  "pending (emit ev w) = pending w" "constant_str (emit ev w) = constant_str w"
  by (simp_all add: emit_def)

lemma connect_like:
  "fst (and_then (logger_info s) (\<lambda>_. and_then (call_async op msg) completion) w) =
     (case response (pipeline w) op of
        Raises e \<Rightarrow> Raised e
      | Fires_before_return oc \<Rightarrow> (case oc of Success \<Rightarrow> Returned () | Failure e \<Rightarrow> Raised e)
      | Fires_after_return oc \<Rightarrow> (case oc of Success \<Rightarrow> Returned () | Failure e \<Rightarrow> Raised e)
      | Never_fires \<Rightarrow> Suspended (On_completion op)) \<and>
   invoked (new_events w
      (snd (and_then (logger_info s) (\<lambda>_. and_then (call_async op msg) completion) w))) =
     [(op, messages w)] \<and>
   (fst (and_then (logger_info s) (\<lambda>_. and_then (call_async op msg) completion) w) =
      Returned () \<longrightarrow>
    Fire op Success \<in> set (new_events w
      (snd (and_then (logger_info s) (\<lambda>_. and_then (call_async op msg) completion) w))) \<and>
    Wait_completion op \<in> set (new_events w
      (snd (and_then (logger_info s) (\<lambda>_. and_then (call_async op msg) completion) w))))"
proof -
  obtain evs where evs: "trace (snd (and_then (call_async op msg) completion (emit (Log s) w))) =
       trace (emit (Log s) w) @ Invoke op (messages (emit (Log s) w)) # evs"
    "invoked evs = []"
    "fst (and_then (call_async op msg) completion (emit (Log s) w)) = Returned () \<longrightarrow>
        Fire op Success \<in> set evs \<and> Wait_completion op \<in> set evs"
    using trace_bridge [of op msg "emit (Log s) w"] by blast
  from evs(1) have "new_events w (snd (and_then (call_async op msg) completion (emit (Log s) w)))
      = Log s # Invoke op (messages w) # evs"
    by (intro new_events_append) simp
  with evs(2,3) show ?thesis
    by (simp add: logged_then fst_bridge)
qed

text \<open>
  C4. \<^verbatim>\<open>connect()\<close> and \<^verbatim>\<open>disconnect()\<close> call the transport's entry point through the
  callback bridge, once, and then wait on the callback's completion: the call returns only
  after the callback has fired with success, it raises the failure the entry point raised or
  the callback reported, it stays suspended on the completion when the callback never fires,
  and it has no result beyond that.
\<close>

theorem connect_disconnect_await_completion:
  "fst (connect w) =
     (case response (pipeline w) Connect of
        Raises e \<Rightarrow> Raised e
      | Fires_before_return oc \<Rightarrow> (case oc of Success \<Rightarrow> Returned () | Failure e \<Rightarrow> Raised e)
      | Fires_after_return oc \<Rightarrow> (case oc of Success \<Rightarrow> Returned () | Failure e \<Rightarrow> Raised e)
      | Never_fires \<Rightarrow> Suspended (On_completion Connect)) \<and>
   invoked (new_events w (snd (connect w))) = [(Connect, messages w)] \<and>
   (fst (connect w) = Returned () \<longrightarrow>
      Fire Connect Success \<in> set (new_events w (snd (connect w))) \<and>
      Wait_completion Connect \<in> set (new_events w (snd (connect w)))) \<and>
   fst (disconnect w) =
     (case response (pipeline w) Disconnect of
        Raises e \<Rightarrow> Raised e
      | Fires_before_return oc \<Rightarrow> (case oc of Success \<Rightarrow> Returned () | Failure e \<Rightarrow> Raised e)
      | Fires_after_return oc \<Rightarrow> (case oc of Success \<Rightarrow> Returned () | Failure e \<Rightarrow> Raised e)
      | Never_fires \<Rightarrow> Suspended (On_completion Disconnect)) \<and>
   invoked (new_events w (snd (disconnect w))) = [(Disconnect, messages w)] \<and>
   (fst (disconnect w) = Returned () \<longrightarrow>
      Fire Disconnect Success \<in> set (new_events w (snd (disconnect w))) \<and>
      Wait_completion Disconnect \<in> set (new_events w (snd (disconnect w))))"
  unfolding connect_def disconnect_def
  using connect_like [of "''Connecting to Hub...''" Connect "''Successfully connected to Hub''" w]
    connect_like [of "''Disconnecting from Hub...''" Disconnect
      "''Successfully disconnected from Hub''" w]
  by blast

lemma connect_late_world:
  "connect (late_world oc) =
     (case oc of Success \<Rightarrow> Returned () | Failure e \<Rightarrow> Raised e,
      (late_world oc)\<lparr>trace := [Log ''Connecting to Hub...'', Invoke Connect [],
         Wait_completion Connect, Fire Connect oc] @
         (case oc of Success \<Rightarrow> [Log ''Successfully connected to Hub''] | Failure e \<Rightarrow> [])\<rparr>)"
  by (simp add: connect_def late_world_def and_then_def logger_info_def call_async_def
      completion_def settle_def fire_def emit_def Let_def GenericIoTHubClient_init_def
      first_world_def idle_pipeline_def split: outcome.splits)

lemma trace_late_world: "trace (late_world oc) = []"
  by (simp add: late_world_def GenericIoTHubClient_init_def first_world_def)

theorem connect_disconnect_await_completion_witness:
  "fst (connect (late_world Success)) = Returned () \<and>
   new_events (late_world Success) (snd (connect (late_world Success))) =
     [Log ''Connecting to Hub...'', Invoke Connect [], Wait_completion Connect,
      Fire Connect Success, Log ''Successfully connected to Hub''] \<and>
   Fire Connect Success \<in> set (new_events (late_world Success) (snd (connect (late_world Success)))) \<and>
   fst (connect (late_world (Failure ''refused''))) = Raised ''refused''"
proof -
  have r: "fst (connect (late_world Success)) = Returned ()"
    by (simp add: connect_late_world)
  have t: "new_events (late_world Success) (snd (connect (late_world Success))) =
     [Log ''Connecting to Hub...'', Invoke Connect [], Wait_completion Connect,
      Fire Connect Success, Log ''Successfully connected to Hub'']"
    by (simp add: connect_late_world new_events_def trace_late_world)
  have f: "fst (connect (late_world (Failure ''refused''))) = Raised ''refused''"
    by (simp add: connect_late_world)
  from connect_disconnect_await_completion [of "late_world Success"] r t f
  show ?thesis by simp
qed


section \<open>Sending messages\<close>

lemma invoked_log_bridge:
  assumes "trace w1 = trace w"
  shows "invoked (new_events w
      (snd (and_then (logger_info s) (\<lambda>_. and_then (call_async op msg) completion) w1))) =
    [(op, messages w1)]"
proof -
  obtain evs where evs: "trace (snd (and_then (call_async op msg) completion (emit (Log s) w1))) =
       trace (emit (Log s) w1) @ Invoke op (messages (emit (Log s) w1)) # evs"
    "invoked evs = []"
    using trace_bridge [of op msg "emit (Log s) w1"] by blast
  from evs(1) assms
  have "new_events w (snd (and_then (call_async op msg) completion (emit (Log s) w1)))
      = Log s # Invoke op (messages w1) # evs"
    by (intro new_events_append) simp
  with evs(2) show ?thesis by (simp add: logged_then)
qed

lemma messages_log_bridge:
  "messages (snd (and_then (logger_info s) (\<lambda>_. and_then (call_async op msg) completion) w1)) =
     messages w1"
  by (simp add: logged_then messages_bridge)

lemma send_d2c_message_unfold:
  "send_d2c_message message w =
     (if isinstance_Message message
      then and_then (logger_info ''Sending message to Hub...'') (\<lambda>_.
             and_then (call_async (Send_d2c_message message)
               ''Successfully sent message to Hub'') completion) w
      else and_then (logger_info ''Sending message to Hub...'') (\<lambda>_.
             and_then (call_async (Send_d2c_message (MessageRef (length (messages w))))
               ''Successfully sent message to Hub'') completion)
             (w\<lparr>messages := messages w @ [\<lparr>data = message, output_name = None\<rparr>]\<rparr>))"
  by (simp add: send_d2c_message_def to_Message_def and_then_def)

lemma stored_world_simps:
  "messages stored_world = [\<lparr>data = PyStr ''telemetry'', output_name = None\<rparr>]"
  "trace stored_world = []"
  by (simp_all add: stored_world_def IoTHubModuleClient_init_def GenericIoTHubClient_init_def
      first_world_def Let_def)

text \<open>
  C5. \<^verbatim>\<open>send_d2c_message\<close> hands the transport's send operation a \<^verbatim>\<open>Message\<close> whatever
  it is given: a \<^verbatim>\<open>Message\<close> is passed through as it is, anything else is first wrapped
  in a new \<^verbatim>\<open>Message\<close> that holds it.
\<close>

theorem send_d2c_message_hands_over_a_Message:
  assumes "live w message"
  shows "\<exists>a ms. invoked (new_events w (snd (send_d2c_message message w))) =
        [(Send_d2c_message (MessageRef a), ms)] \<and> a < length ms \<and>
      (if isinstance_Message message
       then MessageRef a = message \<and> ms = messages w
       else a = length (messages w) \<and>
            ms = messages w @ [\<lparr>data = message, output_name = None\<rparr>])"
proof (cases message)
  case (MessageRef a)
  with assms have "a < length (messages w)" by simp
  with MessageRef show ?thesis
    by (simp add: send_d2c_message_unfold invoked_log_bridge)
qed (simp_all add: send_d2c_message_unfold invoked_log_bridge)

theorem send_d2c_message_hands_over_a_Message_witness:
  "live stored_world (PyStr ''hi'') \<and>
   invoked (new_events stored_world (snd (send_d2c_message (PyStr ''hi'') stored_world))) =
     [(Send_d2c_message (MessageRef 1),
       [\<lparr>data = PyStr ''telemetry'', output_name = None\<rparr>,
        \<lparr>data = PyStr ''hi'', output_name = None\<rparr>])] \<and>
   live stored_world (MessageRef 0) \<and>
   invoked (new_events stored_world (snd (send_d2c_message (MessageRef 0) stored_world))) =
     [(Send_d2c_message (MessageRef 0), [\<lparr>data = PyStr ''telemetry'', output_name = None\<rparr>])]"
proof -
  have h1: "live stored_world (PyStr ''hi'')"
    by simp
  have h2: "live stored_world (MessageRef 0)"
    by (simp add: stored_world_simps)
  from send_d2c_message_hands_over_a_Message [OF h1]
    send_d2c_message_hands_over_a_Message [OF h2] h1 h2
  show ?thesis by (auto simp: stored_world_simps)
qed

lemma send_to_output_unfold:
  "send_to_output message name w =
     (if isinstance_Message message
      then (case message of MessageRef a \<Rightarrow>
             and_then (logger_info (''Sending message to output:'' @ name @ ''...'')) (\<lambda>_.
             and_then (call_async (Send_output_event message)
               (''Successfully sent message to output: '' @ name)) completion)
             (w\<lparr>messages := (messages w)[a := (messages w ! a)\<lparr>output_name := Some name\<rparr>]\<rparr>)
            | _ \<Rightarrow> (Raised ''AttributeError'', w))
      else and_then (logger_info (''Sending message to output:'' @ name @ ''...'')) (\<lambda>_.
             and_then (call_async (Send_output_event (MessageRef (length (messages w))))
               (''Successfully sent message to output: '' @ name)) completion)
             (w\<lparr>messages := messages w @ [\<lparr>data = message, output_name = Some name\<rparr>]\<rparr>))"
  by (cases message)
    (simp_all add: send_to_output_def to_Message_def set_output_name_def and_then_def)

text \<open>
  C6. \<^verbatim>\<open>send_to_output(message, output_name)\<close> hands the transport's send-output-event
  operation a \<^verbatim>\<open>Message\<close> (the one given, or a new one that holds what was given) whose
  \<^verbatim>\<open>output_name\<close> is the given output name at the moment of the call.
\<close>

theorem send_to_output_stamps_output_name:
  assumes "live w message"
  shows "\<exists>a ms. invoked (new_events w (snd (send_to_output message name w))) =
        [(Send_output_event (MessageRef a), ms)] \<and> a < length ms \<and>
      output_name (ms ! a) = Some name \<and>
      data (ms ! a) = (if isinstance_Message message then data (messages w ! a) else message) \<and>
      (isinstance_Message message \<longrightarrow> MessageRef a = message)"
proof (cases message)
  case (MessageRef a)
  with assms have "a < length (messages w)" by simp
  with MessageRef show ?thesis
    by (simp add: send_to_output_unfold invoked_log_bridge)
qed (simp_all add: send_to_output_unfold invoked_log_bridge)

theorem send_to_output_stamps_output_name_witness:
  "live stored_world (PyStr ''hi'') \<and>
   (\<exists>a ms. invoked (new_events stored_world
        (snd (send_to_output (PyStr ''hi'') ''out1'' stored_world))) =
        [(Send_output_event (MessageRef a), ms)] \<and>
      a < length ms \<and> ms ! a = \<lparr>data = PyStr ''hi'', output_name = Some ''out1''\<rparr>) \<and>
   live stored_world (MessageRef 0) \<and>
   (\<exists>ms. invoked (new_events stored_world
        (snd (send_to_output (MessageRef 0) ''out1'' stored_world))) =
        [(Send_output_event (MessageRef 0), ms)] \<and>
      ms ! 0 = \<lparr>data = PyStr ''telemetry'', output_name = Some ''out1''\<rparr>)"
proof -
  have h1: "live stored_world (PyStr ''hi'')"
    by simp
  have h2: "live stored_world (MessageRef 0)"
    by (simp add: stored_world_simps)
  from send_to_output_stamps_output_name [OF h1, of "''out1''"]
  have one: "\<exists>a ms. invoked (new_events stored_world
        (snd (send_to_output (PyStr ''hi'') ''out1'' stored_world))) =
        [(Send_output_event (MessageRef a), ms)] \<and>
      a < length ms \<and> ms ! a = \<lparr>data = PyStr ''hi'', output_name = Some ''out1''\<rparr>"
    by auto
  from send_to_output_stamps_output_name [OF h2, of "''out1''"]
  have two: "\<exists>ms. invoked (new_events stored_world
        (snd (send_to_output (MessageRef 0) ''out1'' stored_world))) =
        [(Send_output_event (MessageRef 0), ms)] \<and>
      ms ! 0 = \<lparr>data = PyStr ''telemetry'', output_name = Some ''out1''\<rparr>"
    by (auto simp: stored_world_simps)
  from one two h1 h2 show ?thesis by blast
qed

text \<open>
  C9. Given a \<^verbatim>\<open>Message\<close>, \<^verbatim>\<open>send_to_output\<close> assigns \<^verbatim>\<open>output_name\<close> on that very
  object: no object is added to the store, the transport is handed the same reference, and
  when the call is over the caller's object carries the given output name, however the call
  ended.
\<close>

theorem send_to_output_mutates_in_place:
  assumes "a < length (messages w)"
  shows "messages (snd (send_to_output (MessageRef a) name w)) =
      (messages w)[a := (messages w ! a)\<lparr>output_name := Some name\<rparr>] \<and>
    output_name (messages (snd (send_to_output (MessageRef a) name w)) ! a) = Some name \<and>
    length (messages (snd (send_to_output (MessageRef a) name w))) = length (messages w) \<and>
    invoked (new_events w (snd (send_to_output (MessageRef a) name w))) =
      [(Send_output_event (MessageRef a),
        (messages w)[a := (messages w ! a)\<lparr>output_name := Some name\<rparr>])]"
  using assms
  by (simp add: send_to_output_unfold invoked_log_bridge messages_log_bridge)


theorem send_to_output_mutates_in_place_witness:
  "0 < length (messages stored_world) \<and>
   messages (snd (send_to_output (MessageRef 0) ''out1'' stored_world)) =
     [\<lparr>data = PyStr ''telemetry'', output_name = Some ''out1''\<rparr>]"
proof -
  have h: "0 < length (messages stored_world)"
    by (simp add: stored_world_simps)
  from send_to_output_mutates_in_place [OF h, of "''out1''"] h
  show ?thesis by (simp add: stored_world_simps)
qed


section \<open>Receiving\<close>

lemma enable_feature_unfold:
  "enable_feature f w =
     (case response (pipeline w) (Enable_feature f) of
        Raises e \<Rightarrow>
          (Raised e, emit (Invoke (Enable_feature f) (messages w))
             (emit (Log (''Enabling feature:'' @ constant_str w f @ ''...'')) w))
      | Fires_before_return oc \<Rightarrow>
          (Returned (),
           fire (Enable_feature f) (''Successfully enabled feature:'' @ constant_str w f) oc
             (emit (Invoke (Enable_feature f) (messages w))
               (emit (Log (''Enabling feature:'' @ constant_str w f @ ''...'')) w)))
      | Fires_after_return oc \<Rightarrow>
          (Returned (),
           (emit (Invoke (Enable_feature f) (messages w))
              (emit (Log (''Enabling feature:'' @ constant_str w f @ ''...'')) w))
           \<lparr>pending := pending w @
              [(Enable_feature f, ''Successfully enabled feature:'' @ constant_str w f, oc)]\<rparr>)
      | Never_fires \<Rightarrow>
          (Returned (), emit (Invoke (Enable_feature f) (messages w))
             (emit (Log (''Enabling feature:'' @ constant_str w f @ ''...'')) w)))"
  by (simp add: enable_feature_def and_then_def logger_info_def call_async_def return_def
      Let_def split: response.splits)



lemma wait_for_item_unfold:
  "wait_for_item r l1 l2 w =
     (case AsyncClientInbox_get (case inbox_manager w r of None \<Rightarrow> [] | Some q \<Rightarrow> q) of
        None \<Rightarrow>
          (Suspended (On_inbox r),
           emit (Wait_inbox r) (emit (Log l1)
             (w\<lparr>inbox_manager := inbox_for r (inbox_manager w)\<rparr>)))
      | Some (x, q') \<Rightarrow>
          (Returned x,
           emit (Log l2) ((emit (Wait_inbox r) (emit (Log l1) w))
             \<lparr>inbox_manager := (inbox_manager w)(r \<mapsto> q')\<rparr>)))"
  by (simp add: and_then_def get_inbox_def logger_info_def inbox_get_def return_def inbox_for_def
      emit_def AsyncClientInbox_get_def Let_def split: option.splits list.splits)



lemma requested_world_simps:
  "pipeline (requested_world r) =
     (idle_pipeline r)\<lparr>on_connected := Some On_state_change,
        on_disconnected := Some On_state_change,
        on_method_request_received := Some Route_method_request\<rparr>"
  "inbox_manager (requested_world r) = [(Method_requests, None) \<mapsto> [Item (Some ''reboot'') PyNone]]"
  "messages (requested_world r) = []"
  "trace (requested_world r) = []"
  "pending (requested_world r) = []"
  "constant_str (requested_world r) = feature_names"
  by (simp_all add: requested_world_def inbound_event_def GenericIoTHubClient_init_def
      InboxManager_init_def first_world_def idle_pipeline_def route_method_request_def
      put_in_def inbox_for_def AsyncClientInbox_put_def Let_def)

lemma receive_method_request_unfold:
  "receive_method_request method_name w =
     (case enable_if_disabled METHODS w of
        (Returned u, w1) \<Rightarrow>
          wait_for_item (Method_requests, method_name) ''Waiting for method request...''
            ''Received method request'' w1
      | (Raised e, w1) \<Rightarrow> (Raised e, w1)
      | (Suspended p, w1) \<Rightarrow> (Suspended p, w1))"
  unfolding receive_method_request_def get_method_request_inbox_def
  by (subst and_then_def) simp





text \<open>
  C1. Specified: a receive operation called with the feature flag false begins to wait on
  the inbox only after the enable-feature callback has fired and its outcome has been seen,
  and fails without waiting on the inbox when enabling the feature failed. The code, evaluated:
  \<^verbatim>\<open>_enable_feature\<close> awaits the wrapped call and never \<^verbatim>\<open>callback.completion()\<close>. With
  an entry point that returns before its callback fires with a failure, the operation waits
  on the inbox and returns the queued request while the callback is still pending; with one
  that fires the callback with a failure before it returns, the operation waits on the inbox
  all the same, and returns the queued request or stays suspended on an empty inbox.
\<close>

theorem receive_does_not_await_enable_feature:
  "fst (receive_method_request None (requested_world (Fires_after_return (Failure ''refused'')))) =
     Returned (Item (Some ''reboot'') PyNone) \<and>
   trace (snd (receive_method_request None
       (requested_world (Fires_after_return (Failure ''refused''))))) =
     [Log ''Enabling feature:methods...'', Invoke (Enable_feature METHODS) [],
      Log ''Waiting for method request...'', Wait_inbox (Method_requests, None),
      Log ''Received method request''] \<and>
   pending (snd (receive_method_request None
       (requested_world (Fires_after_return (Failure ''refused''))))) =
     [(Enable_feature METHODS, ''Successfully enabled feature:methods'', Failure ''refused'')] \<and>
   fst (receive_method_request None (requested_world (Fires_before_return (Failure ''refused'')))) =
     Returned (Item (Some ''reboot'') PyNone) \<and>
   trace (snd (receive_method_request None
       (requested_world (Fires_before_return (Failure ''refused''))))) =
     [Log ''Enabling feature:methods...'', Invoke (Enable_feature METHODS) [],
      Fire (Enable_feature METHODS) (Failure ''refused''),
      Log ''Waiting for method request...'', Wait_inbox (Method_requests, None),
      Log ''Received method request''] \<and>
   fst (receive_method_request (Some ''reset'')
       (requested_world (Fires_before_return (Failure ''refused'')))) =
     Suspended (On_inbox (Method_requests, Some ''reset''))"
  by (simp add: receive_method_request_unfold enable_feature_unfold wait_for_item_unfold
      requested_world_simps idle_pipeline_def feature_names_def AsyncClientInbox_get_def
      fire_def emit_def)


end
